theory Spec2Isabelle
  imports Complex_Main "HOL-Library.Char_ord" "HOL-Library.List_Lexorder"
begin

section \<open>The transit mode notebook (notebooks/2015/mode/transit\_mode.ipynb)\<close>

text \<open>
  The notebook joins the transit mode answers with the two survey weights, groups the
  rows by transit mode, and builds a summary frame, a table with two total rows, and a
  bar chart. The model follows the cells of the notebook statement by statement.

  Modelling decisions:
  \<^item> A weight is a finite number or missing (\<open>None\<close>, the NaN of the weight column).
    Finite numbers are exact reals: the rounding of binary floating point, signed zeros
    and infinite input weights are not modelled.
  \<^item> A value computed by a division is a \<open>float64\<close>: a finite number, an infinity or
    NaN, as numpy's division gives them.
  \<^item> The transit mode is a value of any linearly ordered type (the order of the
    categories of a categorical column, or the order of strings), or missing.
  \<^item> The joined frame has exactly the three columns the notebook reads.
  \<^item> The table is modelled as the text of its cells, without the HTML markup around
    them.
\<close>

subsection \<open>Numbers\<close>

datatype error = ZeroDivisionError

datatype float64 = Finite real | PosInf | NegInf | NaN

definition isna :: "float64 \<Rightarrow> bool" where
  "isna v = (v = NaN)"

text \<open>Division of numpy and pandas values (\<open>Series / scalar\<close>, \<open>np.float64 / np.float64\<close>):
  it never raises; a zero divisor gives NaN for a zero dividend and an infinity otherwise.\<close>

definition true_divide :: "real \<Rightarrow> real \<Rightarrow> float64" where
  "true_divide a b =
     (if b \<noteq> 0 then Finite (a / b)
      else if a = 0 then NaN
      else if 0 < a then PosInf
      else NegInf)"

text \<open>Division of two Python \<open>int\<close>s (\<open>total_valid / total\<close>, both results of \<open>len\<close>):
  a zero divisor raises.\<close>

definition py_truediv :: "int \<Rightarrow> int \<Rightarrow> error + float64" where
  "py_truediv a b =
     (if b = 0 then Inl ZeroDivisionError
      else Inr (Finite (real_of_int a / real_of_int b)))"

text \<open>\<open>Series.sum()\<close> of a weight column, with pandas' default \<open>skipna=True\<close>: a missing
  value is replaced by zero before the values are added.\<close>

definition nansum :: "real option list \<Rightarrow> real" where
  "nansum ws = sum_list (map (\<lambda>w. case w of None \<Rightarrow> 0 | Some v \<Rightarrow> v) ws)"

subsection \<open>The joined frame\<close>

record 'c row =
  transit_mode :: "'c option"
  unlinked_weight :: "real option"
  linked_weight :: "real option"

type_synonym 'c frame = "'c row list"

subsection \<open>Grouping\<close>

text \<open>\<open>groupby("transit_mode", observed=True)\<close>: one group for each transit mode that
  occurs, in sorted order; rows with a missing transit mode belong to no group.\<close>

definition group_keys :: "('c::linorder) frame \<Rightarrow> 'c list" where
  "group_keys df = sort (remdups (List.map_filter transit_mode df))"

definition get_group :: "'c frame \<Rightarrow> 'c \<Rightarrow> 'c frame" where
  "get_group df k = filter (\<lambda>r. transit_mode r = Some k) df"

text \<open>A Series over the groups is the function from the group key to the value; its
  index is \<open>group_keys\<close>.\<close>

definition unweighted :: "'c frame \<Rightarrow> 'c \<Rightarrow> int" where
  "unweighted df k = int (length (get_group df k))"

definition unlinked :: "'c frame \<Rightarrow> 'c \<Rightarrow> real" where
  "unlinked df k = nansum (map unlinked_weight (get_group df k))"

definition linked :: "'c frame \<Rightarrow> 'c \<Rightarrow> real" where
  "linked df k = nansum (map linked_weight (get_group df k))"

definition series_sum :: "('c::linorder) frame \<Rightarrow> ('c \<Rightarrow> 'a::monoid_add) \<Rightarrow> 'a" where
  "series_sum df s = sum_list (map s (group_keys df))"

text \<open>\<open>dropna()\<close> keeps the rows in which no column is missing.\<close>

definition dropna :: "'c frame \<Rightarrow> 'c frame" where
  "dropna df =
     filter (\<lambda>r. transit_mode r \<noteq> None \<and> unlinked_weight r \<noteq> None \<and> linked_weight r \<noteq> None) df"

definition total_valid :: "'c frame \<Rightarrow> int" where
  "total_valid df = int (length (dropna df))"

definition total :: "'c frame \<Rightarrow> int" where
  "total df = int (length df)"

definition unlinked_total :: "'c frame \<Rightarrow> real" where
  "unlinked_total df = nansum (map unlinked_weight df)"

definition linked_total :: "'c frame \<Rightarrow> real" where
  "linked_total df = nansum (map linked_weight df)"

subsection \<open>The summary frame\<close>

text \<open>The six columns \<open>("unweighted", "count")\<close> ... \<open>("linked_weight", "percent")\<close>.\<close>

record summary_row =
  unweighted_count :: int
  unweighted_percent :: float64
  unlinked_weight_count :: float64
  unlinked_weight_percent :: float64
  linked_weight_count :: float64
  linked_weight_percent :: float64

definition summary :: "('c::linorder) frame \<Rightarrow> ('c \<times> summary_row) list" where
  "summary df =
     map (\<lambda>k. (k,
       \<lparr> unweighted_count = unweighted df k,
         unweighted_percent =
           true_divide (real_of_int (unweighted df k)) (real_of_int (series_sum df (unweighted df))),
         unlinked_weight_count = Finite (unlinked df k),
         unlinked_weight_percent = true_divide (unlinked df k) (series_sum df (unlinked df)),
         linked_weight_count = Finite (linked df k),
         linked_weight_percent = true_divide (linked df k) (series_sum df (linked df)) \<rparr>))
       (group_keys df)"

subsection \<open>The table\<close>

datatype 'c label = Category 'c | Label string

text \<open>The dictionary of the "Total valid" row. Its second entry divides two Python
  integers and raises when the frame has no rows.\<close>

definition total_valid_row :: "('c::linorder) frame \<Rightarrow> error + summary_row" where
  "total_valid_row df =
     (case py_truediv (total_valid df) (total df) of
        Inl e \<Rightarrow> Inl e
      | Inr p \<Rightarrow> Inr
          \<lparr> unweighted_count = total_valid df,
            unweighted_percent = p,
            unlinked_weight_count = Finite (series_sum df (unlinked df)),
            unlinked_weight_percent = true_divide (series_sum df (unlinked df)) (unlinked_total df),
            linked_weight_count = Finite (series_sum df (linked df)),
            linked_weight_percent = true_divide (series_sum df (linked df)) (linked_total df) \<rparr>)"

text \<open>The dictionary of the "Total" row has no percent entries: the frame built from
  the two dictionaries holds NaN there.\<close>

definition total_row :: "'c frame \<Rightarrow> summary_row" where
  "total_row df =
     \<lparr> unweighted_count = total df,
       unweighted_percent = NaN,
       unlinked_weight_count = Finite (unlinked_total df),
       unlinked_weight_percent = NaN,
       linked_weight_count = Finite (linked_total df),
       linked_weight_percent = NaN \<rparr>"

text \<open>\<open>pd.concat([summary, totals])\<close>: the rows of the summary, then the two total rows.\<close>

definition table_frame :: "('c::linorder) frame \<Rightarrow> error + ('c label \<times> summary_row) list" where
  "table_frame df =
     (case total_valid_row df of
        Inl e \<Rightarrow> Inl e
      | Inr tv \<Rightarrow> Inr (map (\<lambda>(k, r). (Category k, r)) (summary df)
                       @ [(Label ''Total valid'', tv), (Label ''Total'', total_row df)]))"

text \<open>\<open>to_html(formatters=...)\<close>, as the text of each cell. The notebook passes no
  \<open>na_rep\<close>, so pandas writes its default \<open>"NaN"\<close> for a missing value of a float column
  and calls the column's formatter on every other value. The two Python formatters
  (\<open>"{:,.0f}".format\<close> and \<open>"{:,.2%}".format\<close>) are parameters.\<close>

definition na_rep :: string where
  "na_rep = ''NaN''"

definition format_with_na_rep :: "(float64 \<Rightarrow> string) \<Rightarrow> float64 \<Rightarrow> string" where
  "format_with_na_rep formatter v = (if isna v then na_rep else formatter v)"

definition to_html_row :: "(float64 \<Rightarrow> string) \<Rightarrow> (float64 \<Rightarrow> string) \<Rightarrow> summary_row \<Rightarrow> string list" where
  "to_html_row fmt_count fmt_percent r =
     [ fmt_count (Finite (real_of_int (unweighted_count r))),
       format_with_na_rep fmt_percent (unweighted_percent r),
       format_with_na_rep fmt_count (unlinked_weight_count r),
       format_with_na_rep fmt_percent (unlinked_weight_percent r),
       format_with_na_rep fmt_count (linked_weight_count r),
       format_with_na_rep fmt_percent (linked_weight_percent r) ]"

definition to_html ::
  "(float64 \<Rightarrow> string) \<Rightarrow> (float64 \<Rightarrow> string) \<Rightarrow> ('l \<times> summary_row) list \<Rightarrow> ('l \<times> string list) list" where
  "to_html fmt_count fmt_percent t = map (\<lambda>(l, r). (l, to_html_row fmt_count fmt_percent r)) t"

definition table ::
  "(float64 \<Rightarrow> string) \<Rightarrow> (float64 \<Rightarrow> string) \<Rightarrow> ('c::linorder) frame \<Rightarrow> error + ('c label \<times> string list) list" where
  "table fmt_count fmt_percent df =
     (case table_frame df of
        Inl e \<Rightarrow> Inl e
      | Inr t \<Rightarrow> Inr (to_html fmt_count fmt_percent t))"

subsection \<open>The chart\<close>

record 'c bar =
  bar_x :: "'c list"
  bar_y :: "float64 list"
  bar_name :: string

record layout =
  title_text :: "string option"
  yaxis_range :: "(real \<times> real) option"
  yaxis_tickformat :: "string option"
  xaxis_title :: "string option"
  yaxis_title :: "string option"

record 'c fig =
  fig_data :: "'c bar list"
  fig_layout :: layout

definition Figure :: "'c fig" where
  "Figure =
     \<lparr> fig_data = [],
       fig_layout = \<lparr> title_text = None, yaxis_range = None, yaxis_tickformat = None,
                      xaxis_title = None, yaxis_title = None \<rparr> \<rparr>"

definition add_trace :: "'c fig \<Rightarrow> 'c bar \<Rightarrow> 'c fig" where
  "add_trace f b = f\<lparr>fig_data := fig_data f @ [b]\<rparr>"

definition update_layout :: "'c fig \<Rightarrow> string \<Rightarrow> real \<times> real \<Rightarrow> string \<Rightarrow> string \<Rightarrow> string \<Rightarrow> 'c fig" where
  "update_layout f tt yr tf xt yt =
     f\<lparr>fig_layout := (fig_layout f)\<lparr> title_text := Some tt, yaxis_range := Some yr,
                                       yaxis_tickformat := Some tf, xaxis_title := Some xt,
                                       yaxis_title := Some yt \<rparr>\<rparr>"

definition figure :: "('c::linorder) frame \<Rightarrow> 'c fig" where
  "figure df =
     (let f0 = Figure;
          f1 = add_trace f0
                 \<lparr> bar_x = map fst (summary df),
                   bar_y = map (\<lambda>(k, r). unweighted_percent r) (summary df),
                   bar_name = ''Unweighted'' \<rparr>;
          f2 = add_trace f1
                 \<lparr> bar_x = map fst (summary df),
                   bar_y = map (\<lambda>(k, r). unlinked_weight_percent r) (summary df),
                   bar_name = ''Weighted (Unlinked)'' \<rparr>;
          f3 = add_trace f2
                 \<lparr> bar_x = map fst (summary df),
                   bar_y = map (\<lambda>(k, r). linked_weight_percent r) (summary df),
                   bar_name = ''Weighted (Linked)'' \<rparr>
      in update_layout f3 ''Unweighted and Weighted Responses by Transit Mode''
           (0, 1) '',.0%'' ''Age'' ''Percent'')"

subsection \<open>Example frames\<close>

text \<open>Four rows, transit modes Bus, Bus, Rail and missing, both weights 1, 1, 2, 5.\<close>

definition example :: "string frame" where
  "example =
     [ \<lparr> transit_mode = Some ''Bus'', unlinked_weight = Some 1, linked_weight = Some 1 \<rparr>,
       \<lparr> transit_mode = Some ''Bus'', unlinked_weight = Some 1, linked_weight = Some 1 \<rparr>,
       \<lparr> transit_mode = Some ''Rail'', unlinked_weight = Some 2, linked_weight = Some 2 \<rparr>,
       \<lparr> transit_mode = None, unlinked_weight = Some 5, linked_weight = Some 5 \<rparr> ]"


text \<open>Rows with missing weights: a Bus row without unlinked weight and a Rail row
  without linked weight.\<close>

definition example_missing :: "string frame" where
  "example_missing =
     [ \<lparr> transit_mode = Some ''Bus'', unlinked_weight = Some 1, linked_weight = Some 1 \<rparr>,
       \<lparr> transit_mode = Some ''Bus'', unlinked_weight = None, linked_weight = Some 3 \<rparr>,
       \<lparr> transit_mode = Some ''Rail'', unlinked_weight = Some 2, linked_weight = None \<rparr>,
       \<lparr> transit_mode = None, unlinked_weight = Some 5, linked_weight = Some 5 \<rparr> ]"

text \<open>Rows whose weights are all zero.\<close>

definition example_zero :: "string frame" where
  "example_zero =
     [ \<lparr> transit_mode = Some ''Bus'', unlinked_weight = Some 0, linked_weight = Some 0 \<rparr>,
       \<lparr> transit_mode = Some ''Rail'', unlinked_weight = Some 0, linked_weight = Some 0 \<rparr> ]"

text \<open>Weights of both signs that cancel in each series.\<close>

definition example_signed :: "string frame" where
  "example_signed =
     [ \<lparr> transit_mode = Some ''Bus'', unlinked_weight = Some 1, linked_weight = Some 2 \<rparr>,
       \<lparr> transit_mode = Some ''Rail'', unlinked_weight = Some (- 1), linked_weight = Some (- 2) \<rparr> ]"

text \<open>Rows none of which has a transit mode.\<close>

definition example_uncategorised :: "string frame" where
  "example_uncategorised =
     [ \<lparr> transit_mode = None, unlinked_weight = Some 4, linked_weight = None \<rparr>,
       \<lparr> transit_mode = None, unlinked_weight = None, linked_weight = Some 4 \<rparr> ]"

section \<open>Properties of the grouping\<close>

lemma set_group_keys: "set (group_keys df) = {k. Some k \<in> transit_mode ` set df}"
proof -
  have "set (List.map_filter transit_mode df) = {k. Some k \<in> transit_mode ` set df}"
    by (induction df) (auto split: option.splits)
  then show ?thesis by (simp add: group_keys_def)
qed

lemma distinct_group_keys: "distinct (group_keys df)"
  by (simp add: group_keys_def)

text \<open>Adding the sums of the groups gives the sum over the rows that have a transit mode.\<close>

lemma sum_groups_aux:
  fixes f :: "'c row \<Rightarrow> 'a::comm_monoid_add"
  assumes "finite K"
  shows "(\<Sum>k\<in>K. sum_list (map f (filter (\<lambda>r. transit_mode r = Some k) df)))
         = sum_list (map f (filter (\<lambda>r. transit_mode r \<in> Some ` K) df))"
proof (induction df)
  case Nil
  show ?case by simp
next
  case (Cons r df)
  show ?case
  proof (cases "transit_mode r")
    case None
    then show ?thesis using Cons by auto
  next
    case (Some c)
    have "(\<Sum>k\<in>K. sum_list (map f (filter (\<lambda>r. transit_mode r = Some k) (r # df))))
          = (\<Sum>k\<in>K. (if c = k then f r else 0) + sum_list (map f (filter (\<lambda>r. transit_mode r = Some k) df)))"
      using Some by (intro sum.cong) auto
    also have "\<dots> = (\<Sum>k\<in>K. if c = k then f r else 0)
                     + sum_list (map f (filter (\<lambda>r. transit_mode r \<in> Some ` K) df))"
      by (simp add: sum.distrib Cons)
    also have "(\<Sum>k\<in>K. if c = k then f r else 0) = (if c \<in> K then f r else 0)"
      using assms by simp
    finally show ?thesis using Some by auto
  qed
qed

lemma sum_over_groups:
  fixes f :: "('c::linorder) row \<Rightarrow> 'a::comm_monoid_add"
  shows "sum_list (map (\<lambda>k. sum_list (map f (get_group df k))) (group_keys df))
         = sum_list (map f (filter (\<lambda>r. transit_mode r \<noteq> None) df))"
proof -
  have "sum_list (map (\<lambda>k. sum_list (map f (get_group df k))) (group_keys df))
        = (\<Sum>k\<in>set (group_keys df). sum_list (map f (get_group df k)))"
    by (rule sum_list_distinct_conv_sum_set) (rule distinct_group_keys)
  also have "\<dots> = sum_list (map f (filter (\<lambda>r. transit_mode r \<in> Some ` set (group_keys df)) df))"
    unfolding get_group_def by (rule sum_groups_aux) simp
  also have "filter (\<lambda>r. transit_mode r \<in> Some ` set (group_keys df)) df
             = filter (\<lambda>r. transit_mode r \<noteq> None) df"
    by (rule filter_cong) (force simp: set_group_keys)+
  finally show ?thesis .
qed

lemma series_sum_unweighted:
  "series_sum df (unweighted df) = int (length (filter (\<lambda>r. transit_mode r \<noteq> None) df))"
proof -
  have "series_sum df (unweighted df)
        = sum_list (map (\<lambda>k. sum_list (map (\<lambda>r. 1::int) (get_group df k))) (group_keys df))"
    unfolding series_sum_def unweighted_def by (simp add: sum_list_triv)
  also have "\<dots> = sum_list (map (\<lambda>r. 1::int) (filter (\<lambda>r. transit_mode r \<noteq> None) df))"
    by (rule sum_over_groups)
  finally show ?thesis by (simp add: sum_list_triv)
qed

lemma nansum_map:
  "nansum (map w rs) = sum_list (map (\<lambda>r. case w r of None \<Rightarrow> 0 | Some v \<Rightarrow> v) rs)"
  by (simp add: nansum_def comp_def)

lemma series_sum_unlinked:
  "series_sum df (unlinked df)
   = nansum (map unlinked_weight (filter (\<lambda>r. transit_mode r \<noteq> None) df))"
  unfolding series_sum_def unlinked_def nansum_map by (rule sum_over_groups)

lemma series_sum_linked:
  "series_sum df (linked df)
   = nansum (map linked_weight (filter (\<lambda>r. transit_mode r \<noteq> None) df))"
  unfolding series_sum_def linked_def nansum_map by (rule sum_over_groups)

text \<open>A sum that skips missing values is the sum of the values that are present.\<close>

lemma nansum_present: "nansum (map w rs) = sum_list (List.map_filter w rs)"
  by (induction rs) (auto simp: nansum_def split: option.splits)

section \<open>Auxiliary facts about the frames\<close>

lemmas frame_defs = group_keys_def get_group_def unweighted_def unlinked_def linked_def
  series_sum_def dropna_def total_valid_def total_def unlinked_total_def linked_total_def
  nansum_def true_divide_def py_truediv_def

text \<open>The rows of the summary, and the "Total valid" row of a frame that has rows.\<close>

lemma summary_row_iff:
  "(k, r) \<in> set (summary df) \<longleftrightarrow>
     k \<in> set (group_keys df) \<and>
     r = \<lparr> unweighted_count = unweighted df k,
           unweighted_percent =
             true_divide (real_of_int (unweighted df k)) (real_of_int (series_sum df (unweighted df))),
           unlinked_weight_count = Finite (unlinked df k),
           unlinked_weight_percent = true_divide (unlinked df k) (series_sum df (unlinked df)),
           linked_weight_count = Finite (linked df k),
           linked_weight_percent = true_divide (linked df k) (series_sum df (linked df)) \<rparr>"
  by (auto simp: summary_def)

lemma total_valid_row_Inr:
  assumes "df \<noteq> []"
  shows "total_valid_row df = Inr
          \<lparr> unweighted_count = total_valid df,
            unweighted_percent = Finite (real_of_int (total_valid df) / real_of_int (total df)),
            unlinked_weight_count = Finite (series_sum df (unlinked df)),
            unlinked_weight_percent = true_divide (series_sum df (unlinked df)) (unlinked_total df),
            linked_weight_count = Finite (series_sum df (linked df)),
            linked_weight_percent = true_divide (series_sum df (linked df)) (linked_total df) \<rparr>"
  using assms by (simp add: total_valid_row_def py_truediv_def total_def)

lemma table_frame_Inr:
  assumes "df \<noteq> []"
  shows "\<exists>tv. total_valid_row df = Inr tv
           \<and> table_frame df = Inr (map (\<lambda>(k, r). (Category k, r)) (summary df)
                                    @ [(Label ''Total valid'', tv), (Label ''Total'', total_row df)])"
  using total_valid_row_Inr [OF assms] by (simp add: table_frame_def)


text \<open>When no value is negative and the sum is zero, every part of the sum is zero.\<close>

lemma nansum_filter_zero:
  assumes "\<forall>r\<in>set rs. case w r of None \<Rightarrow> True | Some v \<Rightarrow> 0 \<le> v"
    and "nansum (map w rs) = 0"
  shows "nansum (map w (filter P rs)) = 0"
proof -
  have "\<forall>x\<in>set (map (\<lambda>r. case w r of None \<Rightarrow> 0 | Some v \<Rightarrow> v) rs). 0 \<le> x"
    using assms(1) by (auto split: option.splits)
  then have "\<forall>x\<in>set (map (\<lambda>r. case w r of None \<Rightarrow> 0 | Some v \<Rightarrow> v) rs). x = 0"
    using assms(2) unfolding nansum_map by (simp only: sum_list_nonneg_eq_0_iff)
  then have "\<forall>r\<in>set rs. (case w r of None \<Rightarrow> 0 | Some v \<Rightarrow> v) = 0"
    by auto
  then show ?thesis
    unfolding nansum_map by (induction rs) auto
qed

lemma nansum_zero_parts:
  assumes "\<forall>r\<in>set rs. case w r of None \<Rightarrow> True | Some v \<Rightarrow> 0 \<le> v"
    and "nansum (map w (filter Q rs)) = 0"
  shows "nansum (map w (filter (\<lambda>r. P r \<and> Q r) rs)) = 0"
proof -
  have "\<forall>r\<in>set (filter Q rs). case w r of None \<Rightarrow> True | Some v \<Rightarrow> 0 \<le> v"
    using assms(1) by simp
  from nansum_filter_zero [OF this assms(2), of P] show ?thesis
    by (simp add: conj_commute)
qed

text \<open>A frame with a group has a row with a transit mode.\<close>

lemma group_size_pos:
  assumes "k \<in> set (group_keys df)"
  shows "filter (\<lambda>x. transit_mode x \<noteq> None) df \<noteq> []"
proof -
  from assms obtain x where "x \<in> set df" "transit_mode x = Some k"
    by (auto simp: set_group_keys)
  then show ?thesis by (auto simp: filter_empty_conv)
qed

lemma sum_list_divide:
  fixes c :: real
  shows "sum_list (map (\<lambda>k. f k / c) ks) = sum_list (map f ks) / c"
  by (induction ks) (simp_all add: add_divide_distrib)

lemma real_of_int_sum_list:
  "real_of_int (sum_list (map f ks)) = sum_list (map (\<lambda>k. real_of_int (f k)) ks)"
  by (induction ks) simp_all

section \<open>The claims\<close>

text \<open>
  Claim C1, as stated, fails: on the four rows of \<open>example\<close> the "Total valid" row's
  weight percents are 4/9, not 1. The notebook divides the sum of the per-category sums by
  \<open>unlinked_total\<close> (\<open>linked_total\<close>), the sum over all rows, and the row whose transit
  mode is missing carries weight 5.
\<close>

theorem total_valid_weight_percent_counterexample:
  "map_sum id unlinked_weight_percent (total_valid_row example) = Inr (Finite (4 / 9))
   \<and> map_sum id linked_weight_percent (total_valid_row example) = Inr (Finite (4 / 9))
   \<and> Finite (4 / 9) \<noteq> Finite 1"
  by (simp add: total_valid_row_def example_def frame_defs)

text \<open>
  Claim C1, amended. For every frame with at least one row, the "Total valid" row's
  \<open>unlinked_weight\<close> and \<open>linked_weight\<close> percents are the sum of the per-category sums
  of that weight divided by the sum of that weight over all rows, the rows without
  transit mode included: not by the sum over the valid rows, so the percent is not
  100% in general.
\<close>

theorem total_valid_weight_percent:
  assumes "df \<noteq> []"
  shows "\<exists>tv. total_valid_row df = Inr tv
     \<and> unlinked_weight_percent tv =
          (let n = sum_list (map (\<lambda>k. nansum (map unlinked_weight (filter (\<lambda>r. transit_mode r = Some k) df)))
                              (sort (remdups (List.map_filter transit_mode df))));
               d = nansum (map unlinked_weight df)
           in if d \<noteq> 0 then Finite (n / d)
              else if n = 0 then NaN else if 0 < n then PosInf else NegInf)
     \<and> linked_weight_percent tv =
          (let n = sum_list (map (\<lambda>k. nansum (map linked_weight (filter (\<lambda>r. transit_mode r = Some k) df)))
                              (sort (remdups (List.map_filter transit_mode df))));
               d = nansum (map linked_weight df)
           in if d \<noteq> 0 then Finite (n / d)
              else if n = 0 then NaN else if 0 < n then PosInf else NegInf)"
proof -
  have u: "series_sum df (unlinked df)
      = sum_list (map (\<lambda>k. nansum (map unlinked_weight (filter (\<lambda>r. transit_mode r = Some k) df)))
                      (sort (remdups (List.map_filter transit_mode df))))"
    unfolding series_sum_def unlinked_def get_group_def group_keys_def ..
  have l: "series_sum df (linked df)
      = sum_list (map (\<lambda>k. nansum (map linked_weight (filter (\<lambda>r. transit_mode r = Some k) df)))
                      (sort (remdups (List.map_filter transit_mode df))))"
    unfolding series_sum_def linked_def get_group_def group_keys_def ..
  show ?thesis
    unfolding total_valid_row_Inr [OF assms] u [symmetric] l [symmetric]
    by (simp add: true_divide_def unlinked_total_def linked_total_def Let_def)
qed

theorem total_valid_weight_percent_witness:
  "example_missing \<noteq> []
   \<and> map_sum id unlinked_weight_percent (total_valid_row example_missing) = Inr (Finite (3 / 8))
   \<and> map_sum id linked_weight_percent (total_valid_row example_missing) = Inr (Finite (4 / 9))"
  using total_valid_weight_percent [of example_missing]
  by (simp add: total_valid_row_def example_missing_def frame_defs)

text \<open>
  Claim C2, as stated, fails: a row that has a transit mode but lacks a weight is counted
  in its group (\<open>groupby(...).size()\<close>) and dropped by \<open>dropna()\<close>. In
  \<open>example_missing\<close> the per-category counts add up to 3 and the "Total valid" row
  reports 1.
\<close>

theorem count_sum_counterexample:
  "sum_list (map (\<lambda>(k, r). unweighted_count r) (summary example_missing)) = 3
   \<and> map_sum id unweighted_count (total_valid_row example_missing) = Inr 1"
  by (simp add: total_valid_row_def summary_def example_missing_def frame_defs)

text \<open>
  Claim C2, amended. For every frame with at least one row, the sum of
  \<open>unweighted_count\<close> over the per-category rows is the count of the "Total valid" row
  plus the number of rows that have a transit mode and lack a weight; the two counts
  are equal exactly when there is no such row.
\<close>

theorem count_sum:
  assumes "df \<noteq> []"
  shows "\<exists>tv. total_valid_row df = Inr tv
     \<and> sum_list (map (\<lambda>(k, r). unweighted_count r) (summary df))
       = unweighted_count tv
         + int (length (filter (\<lambda>r. transit_mode r \<noteq> None
                                   \<and> (unlinked_weight r = None \<or> linked_weight r = None)) df))"
proof -
  have "sum_list (map (\<lambda>(k, r). unweighted_count r) (summary df)) = series_sum df (unweighted df)"
    by (simp add: summary_def series_sum_def comp_def)
  also have "\<dots> = int (length (filter (\<lambda>r. transit_mode r \<noteq> None) df))"
    by (rule series_sum_unweighted)
  also have "length (filter (\<lambda>r. transit_mode r \<noteq> None) df)
             = length (dropna df)
               + length (filter (\<lambda>r. transit_mode r \<noteq> None
                                   \<and> (unlinked_weight r = None \<or> linked_weight r = None)) df)"
    unfolding dropna_def by (induction df) auto
  finally show ?thesis
    using total_valid_row_Inr [OF assms] by (simp add: total_valid_def)
qed

theorem count_sum_witness:
  "example_missing \<noteq> []
   \<and> sum_list (map (\<lambda>(k, r). unweighted_count r) (summary example_missing)) = 1 + 2
   \<and> map_sum id unweighted_count (total_valid_row example_missing) = Inr 1
   \<and> length (filter (\<lambda>r. transit_mode r \<noteq> None
                       \<and> (unlinked_weight r = None \<or> linked_weight r = None)) example_missing) = 2"
  using count_sum [of example_missing]
  by (simp add: total_valid_row_def summary_def example_missing_def frame_defs)

text \<open>
  Claim C3. The summary has one row for each transit mode that occurs, and in the row
  of a transit mode \<open>unweighted_percent\<close> is the number of rows of the category
  divided by the number of rows that have a transit mode (not by the number of all
  rows), and each weight percent is the category's sum of that weight divided by the
  sum of that weight over the rows that have a transit mode (with numpy's NaN or
  infinity when that sum is zero).
\<close>

theorem category_percent:
  "map (\<lambda>(k, r). (k, unweighted_percent r, unlinked_weight_percent r, linked_weight_percent r))
       (summary df)
   = map (\<lambda>k.
       let n = real (length (filter (\<lambda>x. transit_mode x = Some k) df));
           n_valid = real (length (filter (\<lambda>x. transit_mode x \<noteq> None) df));
           u = nansum (map unlinked_weight (filter (\<lambda>x. transit_mode x = Some k) df));
           u_valid = nansum (map unlinked_weight (filter (\<lambda>x. transit_mode x \<noteq> None) df));
           l = nansum (map linked_weight (filter (\<lambda>x. transit_mode x = Some k) df));
           l_valid = nansum (map linked_weight (filter (\<lambda>x. transit_mode x \<noteq> None) df))
       in (k,
           Finite (n / n_valid),
           (if u_valid \<noteq> 0 then Finite (u / u_valid)
            else if u = 0 then NaN else if 0 < u then PosInf else NegInf),
           (if l_valid \<noteq> 0 then Finite (l / l_valid)
            else if l = 0 then NaN else if 0 < l then PosInf else NegInf)))
     (sort (remdups (List.map_filter transit_mode df)))"
proof -
  have "real (length (filter (\<lambda>x. transit_mode x \<noteq> None) df)) \<noteq> 0"
    if "k \<in> set (group_keys df)" for k
    using group_size_pos [OF that] by simp
  then show ?thesis
    unfolding summary_def group_keys_def [symmetric]
    by (simp add: series_sum_unweighted series_sum_unlinked series_sum_linked
        unweighted_def unlinked_def linked_def get_group_def true_divide_def Let_def)
qed

theorem category_percent_witness:
  "map (\<lambda>(k, r). (k, unweighted_percent r, unlinked_weight_percent r, linked_weight_percent r))
       (summary example_missing)
   = [ (''Bus'', Finite (2 / 3), Finite (1 / 3), Finite 1),
       (''Rail'', Finite (1 / 3), Finite (2 / 3), Finite 0) ]"
  using category_percent [of example_missing]
  by (simp add: summary_def example_missing_def frame_defs)

text \<open>
  Claim C4, as stated, fails in its second half: the notebook calls \<open>to_html\<close> without
  \<open>na_rep\<close>, so the missing percents of the "Total" row are written as the text
  \<open>NaN\<close>, not as empty cells. The two formatters are replaced here by functions
  that write a fixed word, to show which cells pass through a formatter.
\<close>

theorem total_row_cells_counterexample:
  "table (\<lambda>v. ''count'') (\<lambda>v. ''percent'') example = Inr
     [ (Category ''Bus'', [''count'', ''percent'', ''count'', ''percent'', ''count'', ''percent'']),
       (Category ''Rail'', [''count'', ''percent'', ''count'', ''percent'', ''count'', ''percent'']),
       (Label ''Total valid'', [''count'', ''percent'', ''count'', ''percent'', ''count'', ''percent'']),
       (Label ''Total'', [''count'', ''NaN'', ''count'', ''NaN'', ''count'', ''NaN'']) ]"
  by (simp add: table_def to_html_def to_html_row_def format_with_na_rep_def isna_def na_rep_def
      table_frame_def total_valid_row_def total_row_def summary_def example_def frame_defs)

text \<open>
  Claim C4, amended. For every frame with at least one row, the last row of the table
  is the "Total" row, its three percent fields are missing (NaN), and whatever the two
  formatters are, the three percent cells of that row are written as the text \<open>NaN\<close>
  (pandas' default for a missing value): not as zero, not as a formatted percent and
  not as empty cells.
\<close>

theorem total_row_cells:
  assumes "df \<noteq> []"
  shows "\<exists>t h. table_frame df = Inr t \<and> t \<noteq> [] \<and> last t = (Label ''Total'', total_row df)
     \<and> unweighted_percent (total_row df) = NaN
     \<and> unlinked_weight_percent (total_row df) = NaN
     \<and> linked_weight_percent (total_row df) = NaN
     \<and> table fmt_count fmt_percent df = Inr h \<and> h \<noteq> []
     \<and> last h = (Label ''Total'',
          [ fmt_count (Finite (real (length df))), ''NaN'',
            fmt_count (Finite (nansum (map unlinked_weight df))), ''NaN'',
            fmt_count (Finite (nansum (map linked_weight df))), ''NaN'' ])"
proof -
  from table_frame_Inr [OF assms] obtain tv where
    t: "table_frame df = Inr (map (\<lambda>(k, r). (Category k, r)) (summary df)
                                @ [(Label ''Total valid'', tv), (Label ''Total'', total_row df)])"
    by blast
  show ?thesis
    unfolding table_def t
    by (simp add: to_html_def to_html_row_def format_with_na_rep_def isna_def na_rep_def
        total_row_def total_def unlinked_total_def linked_total_def)
qed

theorem total_row_cells_witness:
  "example \<noteq> []
   \<and> map_sum id last (table_frame example) = Inr (Label ''Total'', total_row example)
   \<and> map_sum id last (table (\<lambda>v. ''count'') (\<lambda>v. ''percent'') example)
       = Inr (Label ''Total'', [''count'', ''NaN'', ''count'', ''NaN'', ''count'', ''NaN''])"
  using total_row_cells [of example "\<lambda>v. ''count''" "\<lambda>v. ''percent''"]
  by (simp add: table_def to_html_def to_html_row_def format_with_na_rep_def isna_def na_rep_def
      table_frame_def total_valid_row_def total_row_def summary_def example_def frame_defs)

text \<open>
  Claim C5, as stated, fails twice. For the frame without rows \<open>total_valid / total\<close>
  divides two Python integers, and the division by zero raises. And where weights of
  both signs cancel (\<open>example_signed\<close>), the percents with the zero denominator are
  infinities, not NaN.
\<close>

theorem zero_rows_counterexample:
  "table_frame ([] :: string frame) = Inl ZeroDivisionError
   \<and> table (\<lambda>v. ''count'') (\<lambda>v. ''percent'') ([] :: string frame) = Inl ZeroDivisionError
   \<and> map (\<lambda>(k, r). (k, unlinked_weight_percent r, linked_weight_percent r)) (summary example_signed)
       = [(''Bus'', PosInf, PosInf), (''Rail'', NegInf, NegInf)]"
  by (simp add: table_def table_frame_def total_valid_row_def summary_def example_signed_def
      frame_defs)

text \<open>
  Claim C5, amended. For every frame with at least one row the aggregation does not
  raise. A weight percent whose denominator is zero is NaN when its numerator is zero
  too, plus infinity when the numerator is positive and minus infinity when it is
  negative: never a finite number, so never zero. When no weight of the series is
  negative, every weight percent with a zero denominator is NaN, in the per-category
  rows (denominator: the sum of the per-category sums) and in the "Total valid" row
  (denominator: the sum over all rows).
\<close>

theorem zero_denominator:
  assumes "df \<noteq> []"
  shows "\<exists>tv. total_valid_row df = Inr tv
     \<and> table_frame df = Inr (map (\<lambda>(k, r). (Category k, r)) (summary df)
                              @ [(Label ''Total valid'', tv), (Label ''Total'', total_row df)])
     \<and> (series_sum df (unlinked df) = 0 \<longrightarrow>
          map (\<lambda>(k, r). (k, unlinked_weight_percent r)) (summary df)
          = map (\<lambda>k. let u = nansum (map unlinked_weight (filter (\<lambda>x. transit_mode x = Some k) df))
                      in (k, if u = 0 then NaN else if 0 < u then PosInf else NegInf))
              (sort (remdups (List.map_filter transit_mode df))))
     \<and> (series_sum df (linked df) = 0 \<longrightarrow>
          map (\<lambda>(k, r). (k, linked_weight_percent r)) (summary df)
          = map (\<lambda>k. let l = nansum (map linked_weight (filter (\<lambda>x. transit_mode x = Some k) df))
                      in (k, if l = 0 then NaN else if 0 < l then PosInf else NegInf))
              (sort (remdups (List.map_filter transit_mode df))))
     \<and> (unlinked_total df = 0 \<longrightarrow>
          unlinked_weight_percent tv
          = (let u = nansum (map unlinked_weight (filter (\<lambda>x. transit_mode x \<noteq> None) df))
             in if u = 0 then NaN else if 0 < u then PosInf else NegInf))
     \<and> (linked_total df = 0 \<longrightarrow>
          linked_weight_percent tv
          = (let l = nansum (map linked_weight (filter (\<lambda>x. transit_mode x \<noteq> None) df))
             in if l = 0 then NaN else if 0 < l then PosInf else NegInf))
     \<and> ((\<forall>r\<in>set df. case unlinked_weight r of None \<Rightarrow> True | Some v \<Rightarrow> 0 \<le> v)
            \<and> series_sum df (unlinked df) = 0 \<longrightarrow>
          map (\<lambda>(k, r). (k, unlinked_weight_percent r)) (summary df)
          = map (\<lambda>k. (k, NaN)) (sort (remdups (List.map_filter transit_mode df))))
     \<and> ((\<forall>r\<in>set df. case linked_weight r of None \<Rightarrow> True | Some v \<Rightarrow> 0 \<le> v)
            \<and> series_sum df (linked df) = 0 \<longrightarrow>
          map (\<lambda>(k, r). (k, linked_weight_percent r)) (summary df)
          = map (\<lambda>k. (k, NaN)) (sort (remdups (List.map_filter transit_mode df))))
     \<and> ((\<forall>r\<in>set df. case unlinked_weight r of None \<Rightarrow> True | Some v \<Rightarrow> 0 \<le> v)
            \<and> unlinked_total df = 0 \<longrightarrow> unlinked_weight_percent tv = NaN)
     \<and> ((\<forall>r\<in>set df. case linked_weight r of None \<Rightarrow> True | Some v \<Rightarrow> 0 \<le> v)
            \<and> linked_total df = 0 \<longrightarrow> linked_weight_percent tv = NaN)"
proof -
  let ?keys = "sort (remdups (List.map_filter transit_mode df))"
  let ?tv = "\<lparr> unweighted_count = total_valid df,
            unweighted_percent = Finite (real_of_int (total_valid df) / real_of_int (total df)),
            unlinked_weight_count = Finite (series_sum df (unlinked df)),
            unlinked_weight_percent = true_divide (series_sum df (unlinked df)) (unlinked_total df),
            linked_weight_count = Finite (series_sum df (linked df)),
            linked_weight_percent = true_divide (series_sum df (linked df)) (linked_total df) \<rparr>"
  have tv: "total_valid_row df = Inr ?tv"
    by (rule total_valid_row_Inr [OF assms])
  then have t: "table_frame df = Inr (map (\<lambda>(k, r). (Category k, r)) (summary df)
                              @ [(Label ''Total valid'', ?tv), (Label ''Total'', total_row df)])"
    by (simp add: table_frame_def)
  have a: "map (\<lambda>(k, r). (k, unlinked_weight_percent r)) (summary df)
          = map (\<lambda>k. let u = nansum (map unlinked_weight (filter (\<lambda>x. transit_mode x = Some k) df))
                      in (k, if u = 0 then NaN else if 0 < u then PosInf else NegInf)) ?keys"
    if "series_sum df (unlinked df) = 0"
    unfolding summary_def group_keys_def [symmetric] using that
    by (simp add: true_divide_def unlinked_def get_group_def Let_def)
  have b: "map (\<lambda>(k, r). (k, linked_weight_percent r)) (summary df)
          = map (\<lambda>k. let l = nansum (map linked_weight (filter (\<lambda>x. transit_mode x = Some k) df))
                      in (k, if l = 0 then NaN else if 0 < l then PosInf else NegInf)) ?keys"
    if "series_sum df (linked df) = 0"
    unfolding summary_def group_keys_def [symmetric] using that
    by (simp add: true_divide_def linked_def get_group_def Let_def)
  have c: "unlinked_weight_percent ?tv
          = (let u = nansum (map unlinked_weight (filter (\<lambda>x. transit_mode x \<noteq> None) df))
             in if u = 0 then NaN else if 0 < u then PosInf else NegInf)"
    if "unlinked_total df = 0"
    using that by (simp add: true_divide_def series_sum_unlinked Let_def)
  have d: "linked_weight_percent ?tv
          = (let l = nansum (map linked_weight (filter (\<lambda>x. transit_mode x \<noteq> None) df))
             in if l = 0 then NaN else if 0 < l then PosInf else NegInf)"
    if "linked_total df = 0"
    using that by (simp add: true_divide_def series_sum_linked Let_def)
  have e: "map (\<lambda>(k, r). (k, unlinked_weight_percent r)) (summary df) = map (\<lambda>k. (k, NaN)) ?keys"
    if nn: "\<forall>r\<in>set df. case unlinked_weight r of None \<Rightarrow> True | Some v \<Rightarrow> 0 \<le> v"
      and z: "series_sum df (unlinked df) = 0"
  proof -
    from z have z': "nansum (map unlinked_weight (filter (\<lambda>r. transit_mode r \<noteq> None) df)) = 0"
      by (simp add: series_sum_unlinked)
    have "nansum (map unlinked_weight (filter (\<lambda>x. transit_mode x = Some k) df)) = 0" for k
    proof -
      have "filter (\<lambda>x. transit_mode x = Some k) df
            = filter (\<lambda>x. transit_mode x = Some k \<and> transit_mode x \<noteq> None) df"
        by (rule filter_cong) auto
      then show ?thesis
        using nansum_zero_parts [OF nn z', of "\<lambda>x. transit_mode x = Some k"] by simp
    qed
    then show ?thesis unfolding a [OF z] by (simp add: Let_def)
  qed
  have f: "map (\<lambda>(k, r). (k, linked_weight_percent r)) (summary df) = map (\<lambda>k. (k, NaN)) ?keys"
    if nn: "\<forall>r\<in>set df. case linked_weight r of None \<Rightarrow> True | Some v \<Rightarrow> 0 \<le> v"
      and z: "series_sum df (linked df) = 0"
  proof -
    from z have z': "nansum (map linked_weight (filter (\<lambda>r. transit_mode r \<noteq> None) df)) = 0"
      by (simp add: series_sum_linked)
    have "nansum (map linked_weight (filter (\<lambda>x. transit_mode x = Some k) df)) = 0" for k
    proof -
      have "filter (\<lambda>x. transit_mode x = Some k) df
            = filter (\<lambda>x. transit_mode x = Some k \<and> transit_mode x \<noteq> None) df"
        by (rule filter_cong) auto
      then show ?thesis
        using nansum_zero_parts [OF nn z', of "\<lambda>x. transit_mode x = Some k"] by simp
    qed
    then show ?thesis unfolding b [OF z] by (simp add: Let_def)
  qed
  have g: "unlinked_weight_percent ?tv = NaN"
    if nn: "\<forall>r\<in>set df. case unlinked_weight r of None \<Rightarrow> True | Some v \<Rightarrow> 0 \<le> v"
      and z: "unlinked_total df = 0"
  proof -
    from z have "nansum (map unlinked_weight df) = 0" by (simp add: unlinked_total_def)
    from nansum_filter_zero [OF nn this] show ?thesis
      unfolding c [OF z] by (simp add: Let_def)
  qed
  have h: "linked_weight_percent ?tv = NaN"
    if nn: "\<forall>r\<in>set df. case linked_weight r of None \<Rightarrow> True | Some v \<Rightarrow> 0 \<le> v"
      and z: "linked_total df = 0"
  proof -
    from z have "nansum (map linked_weight df) = 0" by (simp add: linked_total_def)
    from nansum_filter_zero [OF nn this] show ?thesis
      unfolding d [OF z] by (simp add: Let_def)
  qed
  from tv t a b c d e f g h show ?thesis
    by (intro exI [of _ ?tv]) blast
qed

theorem zero_denominator_witness:
  "example_zero \<noteq> []
   \<and> series_sum example_zero (unlinked example_zero) = 0
   \<and> series_sum example_zero (linked example_zero) = 0
   \<and> unlinked_total example_zero = 0
   \<and> linked_total example_zero = 0
   \<and> map unlinked_weight example_zero = [Some 0, Some 0]
   \<and> map linked_weight example_zero = [Some 0, Some 0]
   \<and> table_frame example_zero = Inr
       [ (Category ''Bus'',
            \<lparr> unweighted_count = 1, unweighted_percent = Finite (1 / 2),
              unlinked_weight_count = Finite 0, unlinked_weight_percent = NaN,
              linked_weight_count = Finite 0, linked_weight_percent = NaN \<rparr>),
         (Category ''Rail'',
            \<lparr> unweighted_count = 1, unweighted_percent = Finite (1 / 2),
              unlinked_weight_count = Finite 0, unlinked_weight_percent = NaN,
              linked_weight_count = Finite 0, linked_weight_percent = NaN \<rparr>),
         (Label ''Total valid'',
            \<lparr> unweighted_count = 2, unweighted_percent = Finite 1,
              unlinked_weight_count = Finite 0, unlinked_weight_percent = NaN,
              linked_weight_count = Finite 0, linked_weight_percent = NaN \<rparr>),
         (Label ''Total'',
            \<lparr> unweighted_count = 2, unweighted_percent = NaN,
              unlinked_weight_count = Finite 0, unlinked_weight_percent = NaN,
              linked_weight_count = Finite 0, linked_weight_percent = NaN \<rparr>) ]"
  using zero_denominator [of example_zero]
  by (simp add: table_frame_def total_valid_row_def total_row_def summary_def example_zero_def frame_defs)

text \<open>
  Claim C6. When the three denominators of the per-category percents are not zero,
  every percent of the summary is a finite number and each of the three percent
  series adds up to exactly 1 over the per-category rows.
\<close>

theorem percent_series_sum:
  assumes "series_sum df (unweighted df) \<noteq> 0"
    and "series_sum df (unlinked df) \<noteq> 0"
    and "series_sum df (linked df) \<noteq> 0"
  shows "\<exists>ps qs rs.
           map (\<lambda>(k, r). unweighted_percent r) (summary df) = map Finite ps \<and> sum_list ps = 1
         \<and> map (\<lambda>(k, r). unlinked_weight_percent r) (summary df) = map Finite qs \<and> sum_list qs = 1
         \<and> map (\<lambda>(k, r). linked_weight_percent r) (summary df) = map Finite rs \<and> sum_list rs = 1"
proof -
  let ?n = "real_of_int (series_sum df (unweighted df))"
  let ?ps = "map (\<lambda>k. real_of_int (unweighted df k) / ?n) (group_keys df)"
  let ?qs = "map (\<lambda>k. unlinked df k / series_sum df (unlinked df)) (group_keys df)"
  let ?rs = "map (\<lambda>k. linked df k / series_sum df (linked df)) (group_keys df)"
  have n: "?n = sum_list (map (\<lambda>k. real_of_int (unweighted df k)) (group_keys df))"
    unfolding series_sum_def by (rule real_of_int_sum_list)
  have "map (\<lambda>(k, r). unweighted_percent r) (summary df) = map Finite ?ps"
    using assms(1) by (simp add: summary_def true_divide_def comp_def)
  moreover have "sum_list ?ps = 1"
    using assms(1) unfolding sum_list_divide n [symmetric] by simp
  moreover have "map (\<lambda>(k, r). unlinked_weight_percent r) (summary df) = map Finite ?qs"
    using assms(2) by (simp add: summary_def true_divide_def comp_def)
  moreover have "sum_list ?qs = 1"
    using assms(2) unfolding sum_list_divide by (simp add: series_sum_def)
  moreover have "map (\<lambda>(k, r). linked_weight_percent r) (summary df) = map Finite ?rs"
    using assms(3) by (simp add: summary_def true_divide_def comp_def)
  moreover have "sum_list ?rs = 1"
    using assms(3) unfolding sum_list_divide by (simp add: series_sum_def)
  ultimately show ?thesis by blast
qed

theorem percent_series_sum_witness:
  "series_sum example_missing (unweighted example_missing) \<noteq> 0
   \<and> series_sum example_missing (unlinked example_missing) \<noteq> 0
   \<and> series_sum example_missing (linked example_missing) \<noteq> 0
   \<and> map (\<lambda>(k, r). unweighted_percent r) (summary example_missing) = map Finite [2 / 3, 1 / 3]
   \<and> sum_list [2 / 3, 1 / 3 :: real] = 1
   \<and> map (\<lambda>(k, r). unlinked_weight_percent r) (summary example_missing) = map Finite [1 / 3, 2 / 3]
   \<and> map (\<lambda>(k, r). linked_weight_percent r) (summary example_missing) = map Finite [1, 0]"
  using percent_series_sum [of example_missing]
  by (simp add: summary_def example_missing_def frame_defs)

text \<open>
  Claim C7. On the four rows with transit modes Bus, Bus, Rail and missing and both
  weights 1, 1, 2, 5, the table has the rows: Bus with count 2 and unweighted percent
  2/3, Rail with count 1 and unweighted percent 1/3, "Total valid" with count 3 and
  unweighted percent 3/4, and "Total" with count 4, both weight sums 9 and the three
  percent fields missing (NaN).
\<close>

theorem example_table:
  "table_frame example = Inr
     [ (Category ''Bus'',
          \<lparr> unweighted_count = 2, unweighted_percent = Finite (2 / 3),
            unlinked_weight_count = Finite 2, unlinked_weight_percent = Finite (1 / 2),
            linked_weight_count = Finite 2, linked_weight_percent = Finite (1 / 2) \<rparr>),
       (Category ''Rail'',
          \<lparr> unweighted_count = 1, unweighted_percent = Finite (1 / 3),
            unlinked_weight_count = Finite 2, unlinked_weight_percent = Finite (1 / 2),
            linked_weight_count = Finite 2, linked_weight_percent = Finite (1 / 2) \<rparr>),
       (Label ''Total valid'',
          \<lparr> unweighted_count = 3, unweighted_percent = Finite (3 / 4),
            unlinked_weight_count = Finite 4, unlinked_weight_percent = Finite (4 / 9),
            linked_weight_count = Finite 4, linked_weight_percent = Finite (4 / 9) \<rparr>),
       (Label ''Total'',
          \<lparr> unweighted_count = 4, unweighted_percent = NaN,
            unlinked_weight_count = Finite 9, unlinked_weight_percent = NaN,
            linked_weight_count = Finite 9, linked_weight_percent = NaN \<rparr>) ]"
  by (simp add: table_frame_def total_valid_row_def total_row_def summary_def example_def frame_defs)

text \<open>
  Claim C8. The chart has exactly three bar series, named "Unweighted",
  "Weighted (Unlinked)" and "Weighted (Linked)". The x values of each are the transit
  modes that occur in the frame, each once; the y values are the three percent columns
  of the summary. The labels of the table are these x values followed by
  "Total valid" and "Total", which the chart does not contain. The range of the y axis
  is fixed to 0 .. 1 (0% .. 100%).
\<close>

theorem figure_traces:
  "map bar_name (fig_data (figure df)) = [''Unweighted'', ''Weighted (Unlinked)'', ''Weighted (Linked)'']
   \<and> map bar_x (fig_data (figure df)) = [group_keys df, group_keys df, group_keys df]
   \<and> map bar_y (fig_data (figure df)) =
        [ map (\<lambda>(k, r). unweighted_percent r) (summary df),
          map (\<lambda>(k, r). unlinked_weight_percent r) (summary df),
          map (\<lambda>(k, r). linked_weight_percent r) (summary df) ]
   \<and> distinct (group_keys df)
   \<and> set (group_keys df) = {k. Some k \<in> transit_mode ` set df}
   \<and> yaxis_range (fig_layout (figure df)) = Some (0, 1)
   \<and> (df \<noteq> [] \<longrightarrow>
        map_sum id (map fst) (table_frame df)
          = Inr (map Category (group_keys df) @ [Label ''Total valid'', Label ''Total'']))"
proof -
  have x: "map fst (summary df) = group_keys df"
    by (simp add: summary_def comp_def)
  have "map_sum id (map fst) (table_frame df)
          = Inr (map Category (group_keys df) @ [Label ''Total valid'', Label ''Total''])"
    if "df \<noteq> []"
  proof -
    from table_frame_Inr [OF that] obtain tv where
      "table_frame df = Inr (map (\<lambda>(k, r). (Category k, r)) (summary df)
                                @ [(Label ''Total valid'', tv), (Label ''Total'', total_row df)])"
      by blast
    then show ?thesis by (simp add: summary_def comp_def)
  qed
  then show ?thesis
    by (simp add: figure_def Figure_def add_trace_def update_layout_def x
        distinct_group_keys set_group_keys)
qed

theorem figure_traces_witness:
  "example \<noteq> []
   \<and> map bar_x (fig_data (figure example)) = [[''Bus'', ''Rail''], [''Bus'', ''Rail''], [''Bus'', ''Rail'']]
   \<and> map bar_y (fig_data (figure example)) =
        [[Finite (2 / 3), Finite (1 / 3)], [Finite (1 / 2), Finite (1 / 2)], [Finite (1 / 2), Finite (1 / 2)]]
   \<and> map_sum id (map fst) (table_frame example)
        = Inr [Category ''Bus'', Category ''Rail'', Label ''Total valid'', Label ''Total'']"
  using figure_traces [of example]
  by (simp add: figure_def Figure_def add_trace_def update_layout_def
      table_frame_def total_valid_row_def total_row_def summary_def example_def frame_defs)

text \<open>
  Claim C9. A row that has a transit mode and lacks a weight is counted in the
  \<open>unweighted_count\<close> of its category, and it is not counted in the "Total valid" row:
  putting such a row anywhere into a frame raises the count of its category by one
  and leaves the count of rows with every field present as it was.
\<close>

theorem missing_weight_row:
  assumes "transit_mode r = Some k"
    and "unlinked_weight r = None \<or> linked_weight r = None"
  shows "\<exists>s tv. (k, s) \<in> set (summary (xs @ r # ys))
     \<and> unweighted_count s = int (length (filter (\<lambda>x. transit_mode x = Some k) (xs @ ys))) + 1
     \<and> total_valid_row (xs @ r # ys) = Inr tv
     \<and> unweighted_count tv =
         int (length (filter (\<lambda>x. transit_mode x \<noteq> None \<and> unlinked_weight x \<noteq> None
                                    \<and> linked_weight x \<noteq> None) (xs @ ys)))"
proof -
  let ?df = "xs @ r # ys"
  let ?s = "\<lparr> unweighted_count = unweighted ?df k,
           unweighted_percent =
             true_divide (real_of_int (unweighted ?df k)) (real_of_int (series_sum ?df (unweighted ?df))),
           unlinked_weight_count = Finite (unlinked ?df k),
           unlinked_weight_percent = true_divide (unlinked ?df k) (series_sum ?df (unlinked ?df)),
           linked_weight_count = Finite (linked ?df k),
           linked_weight_percent = true_divide (linked ?df k) (series_sum ?df (linked ?df)) \<rparr>"
  have "k \<in> set (group_keys ?df)"
    using assms(1) by (auto simp: set_group_keys image_iff intro!: bexI [of _ r])
  then have "(k, ?s) \<in> set (summary ?df)"
    by (simp add: summary_row_iff)
  moreover have "unweighted_count ?s
      = int (length (filter (\<lambda>x. transit_mode x = Some k) (xs @ ys))) + 1"
    using assms(1) by (simp add: unweighted_def get_group_def)
  moreover have "?df \<noteq> []" by simp
  then obtain tv where tv: "total_valid_row ?df = Inr tv" "unweighted_count tv = total_valid ?df"
    using total_valid_row_Inr [of ?df] by simp
  moreover have "total_valid ?df =
         int (length (filter (\<lambda>x. transit_mode x \<noteq> None \<and> unlinked_weight x \<noteq> None
                                    \<and> linked_weight x \<noteq> None) (xs @ ys)))"
    using assms(2) by (auto simp: total_valid_def dropna_def)
  ultimately show ?thesis by (intro exI [of _ ?s] exI [of _ tv]) simp
qed

theorem missing_weight_row_witness:
  "transit_mode \<lparr> transit_mode = Some ''Bus'', unlinked_weight = None, linked_weight = Some 3 \<rparr>
     = Some ''Bus''
   \<and> unlinked_weight \<lparr> transit_mode = Some ''Bus'', unlinked_weight = None, linked_weight = Some 3 \<rparr>
     = None
   \<and> example_missing =
       [ \<lparr> transit_mode = Some ''Bus'', unlinked_weight = Some 1, linked_weight = Some 1 \<rparr> ]
       @ \<lparr> transit_mode = Some ''Bus'', unlinked_weight = None, linked_weight = Some 3 \<rparr>
       # [ \<lparr> transit_mode = Some ''Rail'', unlinked_weight = Some 2, linked_weight = None \<rparr>,
           \<lparr> transit_mode = None, unlinked_weight = Some 5, linked_weight = Some 5 \<rparr> ]
   \<and> map (\<lambda>(k, s). (k, unweighted_count s)) (summary example_missing) = [(''Bus'', 1 + 1), (''Rail'', 1)]
   \<and> map_sum id unweighted_count (total_valid_row example_missing) = Inr 1"
  using missing_weight_row [of "\<lparr> transit_mode = Some ''Bus'', unlinked_weight = None, linked_weight = Some 3 \<rparr>"
      "''Bus''"
      "[ \<lparr> transit_mode = Some ''Bus'', unlinked_weight = Some 1, linked_weight = Some 1 \<rparr> ]"
      "[ \<lparr> transit_mode = Some ''Rail'', unlinked_weight = Some 2, linked_weight = None \<rparr>,
         \<lparr> transit_mode = None, unlinked_weight = Some 5, linked_weight = Some 5 \<rparr> ]"]
  by (simp add: total_valid_row_def summary_def example_missing_def frame_defs)

text \<open>
  Claim C10. Missing weights add nothing to a weight sum: the weight sums of every
  per-category row, of the "Total" row and of the "Total valid" row (\<open>unlinked.sum()\<close>
  and \<open>linked.sum()\<close>, in the table whenever the frame has a row) are finite numbers,
  the sum of the weights that are present over the rows of the category, over all rows,
  and over the rows that have a transit mode.
\<close>

theorem weight_sums_skip_missing:
  "map (\<lambda>(k, s). (k, unlinked_weight_count s, linked_weight_count s)) (summary df)
     = map (\<lambda>k. (k,
          Finite (sum_list (List.map_filter unlinked_weight (filter (\<lambda>x. transit_mode x = Some k) df))),
          Finite (sum_list (List.map_filter linked_weight (filter (\<lambda>x. transit_mode x = Some k) df)))))
         (sort (remdups (List.map_filter transit_mode df)))
   \<and> unlinked_weight_count (total_row df) = Finite (sum_list (List.map_filter unlinked_weight df))
   \<and> linked_weight_count (total_row df) = Finite (sum_list (List.map_filter linked_weight df))
   \<and> series_sum df (unlinked df)
       = sum_list (List.map_filter unlinked_weight (filter (\<lambda>x. transit_mode x \<noteq> None) df))
   \<and> series_sum df (linked df)
       = sum_list (List.map_filter linked_weight (filter (\<lambda>x. transit_mode x \<noteq> None) df))
   \<and> (df \<noteq> [] \<longrightarrow>
        (\<exists>tv. total_valid_row df = Inr tv
           \<and> table_frame df = Inr (map (\<lambda>(k, r). (Category k, r)) (summary df)
                                    @ [(Label ''Total valid'', tv), (Label ''Total'', total_row df)])
           \<and> unlinked_weight_count tv =
               Finite (sum_list (List.map_filter unlinked_weight (filter (\<lambda>x. transit_mode x \<noteq> None) df)))
           \<and> linked_weight_count tv =
               Finite (sum_list (List.map_filter linked_weight (filter (\<lambda>x. transit_mode x \<noteq> None) df)))))"
proof -
  have "map (\<lambda>(k, s). (k, unlinked_weight_count s, linked_weight_count s)) (summary df)
     = map (\<lambda>k. (k,
          Finite (sum_list (List.map_filter unlinked_weight (filter (\<lambda>x. transit_mode x = Some k) df))),
          Finite (sum_list (List.map_filter linked_weight (filter (\<lambda>x. transit_mode x = Some k) df)))))
         (sort (remdups (List.map_filter transit_mode df)))"
    unfolding summary_def group_keys_def [symmetric]
    by (simp add: unlinked_def linked_def get_group_def nansum_present)
  moreover have "unlinked_weight_count (total_row df) = Finite (sum_list (List.map_filter unlinked_weight df))"
    by (simp add: total_row_def unlinked_total_def nansum_present)
  moreover have "linked_weight_count (total_row df) = Finite (sum_list (List.map_filter linked_weight df))"
    by (simp add: total_row_def linked_total_def nansum_present)
  moreover have "series_sum df (unlinked df)
       = sum_list (List.map_filter unlinked_weight (filter (\<lambda>x. transit_mode x \<noteq> None) df))"
    by (simp add: series_sum_unlinked nansum_present)
  moreover have "series_sum df (linked df)
       = sum_list (List.map_filter linked_weight (filter (\<lambda>x. transit_mode x \<noteq> None) df))"
    by (simp add: series_sum_linked nansum_present)
  moreover have "\<exists>tv. total_valid_row df = Inr tv
           \<and> table_frame df = Inr (map (\<lambda>(k, r). (Category k, r)) (summary df)
                                    @ [(Label ''Total valid'', tv), (Label ''Total'', total_row df)])
           \<and> unlinked_weight_count tv =
               Finite (sum_list (List.map_filter unlinked_weight (filter (\<lambda>x. transit_mode x \<noteq> None) df)))
           \<and> linked_weight_count tv =
               Finite (sum_list (List.map_filter linked_weight (filter (\<lambda>x. transit_mode x \<noteq> None) df)))"
    if "df \<noteq> []"
    unfolding table_frame_def total_valid_row_Inr [OF that]
    by (simp add: series_sum_unlinked series_sum_linked nansum_present)
  ultimately show ?thesis by blast
qed

theorem weight_sums_skip_missing_witness:
  "example_uncategorised \<noteq> []
   \<and> summary example_uncategorised = []
   \<and> table_frame example_uncategorised = Inr
       [ (Label ''Total valid'',
            \<lparr> unweighted_count = 0, unweighted_percent = Finite 0,
              unlinked_weight_count = Finite 0, unlinked_weight_percent = Finite 0,
              linked_weight_count = Finite 0, linked_weight_percent = Finite 0 \<rparr>),
         (Label ''Total'',
            \<lparr> unweighted_count = 2, unweighted_percent = NaN,
              unlinked_weight_count = Finite 4, unlinked_weight_percent = NaN,
              linked_weight_count = Finite 4, linked_weight_percent = NaN \<rparr>) ]
   \<and> example_missing \<noteq> []
   \<and> map (\<lambda>(k, s). (k, unlinked_weight_count s, linked_weight_count s)) (summary example_missing)
       = [(''Bus'', Finite 1, Finite 4), (''Rail'', Finite 2, Finite 0)]
   \<and> map_sum id (\<lambda>tv. (unlinked_weight_count tv, linked_weight_count tv)) (total_valid_row example_missing)
       = Inr (Finite 3, Finite 4)
   \<and> unlinked_weight_count (total_row example_missing) = Finite 8
   \<and> linked_weight_count (total_row example_missing) = Finite 9"
  using weight_sums_skip_missing [of example_uncategorised] weight_sums_skip_missing [of example_missing]
  by (simp add: table_frame_def total_valid_row_def total_row_def summary_def
      example_uncategorised_def example_missing_def frame_defs)

end
